theory Spec2Isabelle
  imports Main "HOL-Library.Sublist"
begin

section \<open>IntelliSchedule: availability engine, temporal resolver, conversation orchestrator\<close>

text \<open>
  A shallow embedding of the scheduling core of the repository:
  \<^item> \<^verbatim>\<open>backend/calendar_service.py\<close>: the free-slot computation of
    \<^verbatim>\<open>CalendarService.find_free_slots\<close>;
  \<^item> \<^verbatim>\<open>backend/utils.py\<close>: \<^verbatim>\<open>DateTimeParser\<close> and \<^verbatim>\<open>extract_duration\<close>;
  \<^item> \<^verbatim>\<open>backend/agent.py\<close>: the nodes of the conversation graph and
    \<^verbatim>\<open>process_message\<close>.
  Everything outside the repository (the wall clock, the time-zone database, the fuzzy
  date parser, the language model, the calendar API) is an explicit input of the model.
\<close>

subsection \<open>Instants and periods\<close>

text \<open>
  An instant is a number of microseconds (the resolution of Python's \<^verbatim>\<open>datetime\<close>) on
  the UTC time line. The busy periods returned by the free/busy query and the slots
  produced from them are dictionaries with the keys \<^verbatim>\<open>start\<close> and \<^verbatim>\<open>end\<close>.
  The sort key of the source is the ISO-8601 text of \<^verbatim>\<open>start\<close>. Texts written in
  one format are ordered like the instants they denote, and the model takes the instant
  as the key.
\<close>

type_synonym instant = int

definition minutes :: "int \<Rightarrow> int" where
  "minutes d = d * 60000000"

record period =
  pstart :: instant
  pend :: instant

text \<open>The half-open overlap test, as in \<^verbatim>\<open>check_availability\<close>:
  \<^verbatim>\<open>start_utc < busy_end and end_utc > busy_start\<close>.\<close>

definition overlaps :: "period \<Rightarrow> period \<Rightarrow> bool" where
  "overlaps s b \<longleftrightarrow> pstart s < pend b \<and> pend s > pstart b"

subsection \<open>The free-slot computation\<close>

text \<open>
  The inner \<^verbatim>\<open>while\<close> loop of \<^verbatim>\<open>find_free_slots\<close>: slots of \<open>d\<close> minutes are
  carved back to back from \<open>cur\<close> while they fit before \<open>fin\<close>. With \<open>d \<le> 0\<close> a loop
  that is entered never ends: the model returns \<open>None\<close> for a run that does not return.
\<close>

function slots_in_gap :: "instant \<Rightarrow> instant \<Rightarrow> int \<Rightarrow> period list option" where
  "slots_in_gap cur fin d =
     (if cur + minutes d \<le> fin
      then (if d \<le> 0 then None
            else map_option (Cons \<lparr>pstart = cur, pend = cur + minutes d\<rparr>)
                   (slots_in_gap (cur + minutes d) fin d))
      else Some [])"
  by pat_completeness auto
termination
  by (relation "measure (\<lambda>(cur, fin, d). nat (fin - cur))") (auto simp: minutes_def)

declare slots_in_gap.simps [simp del]

text \<open>The \<^verbatim>\<open>for i in range(len(all_busy_periods) - 1)\<close> loop over adjacent entries of the
  timeline: the gap runs from the end of entry \<open>i\<close> to the start of entry \<open>i + 1\<close>.\<close>

fun free_gaps :: "period list \<Rightarrow> int \<Rightarrow> period list option" where
  "free_gaps (a # b # rest) d =
     (case slots_in_gap (pend a) (pstart b) d of
        None \<Rightarrow> None
      | Some xs \<Rightarrow> map_option ((@) xs) (free_gaps (b # rest) d))"
| "free_gaps _ d = Some []"

text \<open>
  Lines 422 to 445 of \<^verbatim>\<open>find_free_slots\<close>: the window's start and end are added to
  the busy periods as zero-length entries, the list is sorted by start (Python's sort is
  stable, as \<^const>\<open>sort_key\<close> is), and the gaps are carved.
\<close>

definition free_slots :: "period list \<Rightarrow> instant \<times> instant \<Rightarrow> int \<Rightarrow> period list option" where
  "free_slots busy_periods date_range d =
     (case date_range of (start_dt, end_dt) \<Rightarrow>
        free_gaps
          (sort_key pstart
             (\<lparr>pstart = start_dt, pend = start_dt\<rparr> # busy_periods
                @ [\<lparr>pstart = end_dt, pend = end_dt\<rparr>])) d)"

subsection \<open>Well-formedness conditions on busy periods\<close>




section \<open>The temporal resolver (utils.py)\<close>

subsection \<open>Text\<close>

text \<open>
  A text is a list of ASCII characters. The character classes are those of Python's
  \<^verbatim>\<open>re\<close> and \<^verbatim>\<open>str\<close> on ASCII: \<^verbatim>\<open>\d\<close> is a decimal digit, \<^verbatim>\<open>\s\<close> (and
  what \<^verbatim>\<open>strip()\<close> removes) is one of the ten ASCII white-space characters, a word
  character (for \<^verbatim>\<open>\b\<close>) is a letter, a digit or the underscore, and
  \<^verbatim>\<open>lower()\<close> maps A to Z to a to z. Characters beyond ASCII are outside the model.
\<close>

definition is_digit :: "char \<Rightarrow> bool" where
  "is_digit c \<longleftrightarrow> c \<in> set ''0123456789''"

definition is_space :: "char \<Rightarrow> bool" where
  "is_space c \<longleftrightarrow>
     c \<in> set [CHR 0x09, CHR 0x0A, CHR 0x0B, CHR 0x0C, CHR 0x0D,
               CHR 0x1C, CHR 0x1D, CHR 0x1E, CHR 0x1F, CHR 0x20]"

definition is_word :: "char \<Rightarrow> bool" where
  "is_word c \<longleftrightarrow>
     c \<in> set ''abcdefghijklmnopqrstuvwxyzABCDEFGHIJKLMNOPQRSTUVWXYZ0123456789_''"

definition lower_char :: "char \<Rightarrow> char" where
  "lower_char c =
     (case map_of (zip ''ABCDEFGHIJKLMNOPQRSTUVWXYZ'' ''abcdefghijklmnopqrstuvwxyz'') c of
        None \<Rightarrow> c
      | Some l \<Rightarrow> l)"

definition lower :: "string \<Rightarrow> string" where
  "lower text = map lower_char text"

definition strip :: "string \<Rightarrow> string" where
  "strip text = rev (dropWhile is_space (rev (dropWhile is_space text)))"

text \<open>\<^verbatim>\<open>w in text\<close>: the text has \<open>w\<close> as a contiguous part.\<close>

fun occurs_in :: "string \<Rightarrow> string \<Rightarrow> bool" where
  "occurs_in w [] = (w = [])"
| "occurs_in w (c # cs) = (prefix w (c # cs) \<or> occurs_in w cs)"

definition digit_value :: "char \<Rightarrow> int" where
  "digit_value c = (case map_of (zip ''0123456789'' [0, 1, 2, 3, 4, 5, 6, 7, 8, 9]) c of
                      None \<Rightarrow> 0 | Some v \<Rightarrow> v)"

text \<open>The exceptions that the modelled code can raise.\<close>

datatype error = ValueError | TypeError | KeyError | AttributeError | OverflowError
  | UnknownTimeZoneError | HttpError | LibraryError

text \<open>
  \<^verbatim>\<open>int(s)\<close> on the texts that reach it here, the groups matched by \<^verbatim>\<open>\d\<close>: a
  non-empty digit string has its decimal value, anything else raises ValueError.
\<close>

definition py_int :: "string \<Rightarrow> error + int" where
  "py_int s =
     (if s \<noteq> [] \<and> list_all is_digit s
      then Inr (foldl (\<lambda>acc c. 10 * acc + digit_value c) 0 s)
      else Inl ValueError)"

subsection \<open>Regular expressions\<close>

text \<open>
  The patterns of the source use literals, the classes \<^verbatim>\<open>\d\<close>, \<^verbatim>\<open>\s\<close> and
  \<^verbatim>\<open>.\<close>, a bracketed class, \<^verbatim>\<open>\b\<close>, sequence, alternation, the greedy
  \<^verbatim>\<open>?\<close> and \<^verbatim>\<open>*\<close>, and numbered groups (\<^verbatim>\<open>x+\<close> is \<^verbatim>\<open>xx*\<close>,
  \<^verbatim>\<open>\d{1,2}\<close> is \<^verbatim>\<open>\d\d?\<close>). The matcher returns every way to match at the
  current position, in the order in which a backtracking matcher tries them, so the head
  of the list is the match that Python reports. A match state holds the character before
  the position (for \<^verbatim>\<open>\b\<close>), the rest of the text and the groups closed so far.
\<close>

datatype regex =
    Lit string
  | Digit
  | Space
  | AnyChar
  | OneOf string
  | WordB
  | Seq regex regex
  | Alt regex regex
  | Opt regex
  | Star regex
  | Group nat regex

record mstate =
  m_prev :: "char option"
  m_rest :: string
  m_caps :: "(nat \<times> string) list"

definition step_char :: "(char \<Rightarrow> bool) \<Rightarrow> mstate \<Rightarrow> mstate list" where
  "step_char P s =
     (case m_rest s of
        [] \<Rightarrow> []
      | c # cs \<Rightarrow> if P c then [s\<lparr>m_prev := Some c, m_rest := cs\<rparr>] else [])"

text \<open>Greedy repetition: one more round first, then none. A round that consumes
  nothing is not repeated; the fuel is the length of the rest.\<close>

fun iter :: "nat \<Rightarrow> (mstate \<Rightarrow> mstate list) \<Rightarrow> mstate \<Rightarrow> mstate list" where
  "iter 0 f s = [s]"
| "iter (Suc n) f s =
     concat (map (iter n f) (filter (\<lambda>t. length (m_rest t) < length (m_rest s)) (f s))) @ [s]"

definition at_boundary :: "mstate \<Rightarrow> bool" where
  "at_boundary s \<longleftrightarrow>
     (case m_prev s of None \<Rightarrow> False | Some c \<Rightarrow> is_word c)
       \<noteq> (case m_rest s of [] \<Rightarrow> False | c # _ \<Rightarrow> is_word c)"

primrec rmatch :: "regex \<Rightarrow> mstate \<Rightarrow> mstate list" where
  "rmatch (Lit w) s =
     (if prefix w (m_rest s)
      then [s\<lparr>m_prev := (if w = [] then m_prev s else Some (last w)),
              m_rest := drop (length w) (m_rest s)\<rparr>]
      else [])"
| "rmatch Digit s = step_char is_digit s"
| "rmatch Space s = step_char is_space s"
| "rmatch AnyChar s = step_char (\<lambda>c. c \<noteq> CHR 0x0A) s"
| "rmatch (OneOf cs) s = step_char (\<lambda>c. c \<in> set cs) s"
| "rmatch WordB s = (if at_boundary s then [s] else [])"
| "rmatch (Seq a b) s = concat (map (rmatch b) (rmatch a s))"
| "rmatch (Alt a b) s = rmatch a s @ rmatch b s"
| "rmatch (Opt a) s = rmatch a s @ [s]"
| "rmatch (Star a) s = iter (length (m_rest s)) (rmatch a) s"
| "rmatch (Group n a) s =
     map (\<lambda>t. t\<lparr>m_caps := (n, take (length (m_rest s) - length (m_rest t)) (m_rest s)) # m_caps t\<rparr>)
       (rmatch a s)"

text \<open>\<^verbatim>\<open>re.search\<close>: the leftmost position with a match, and there the first match.\<close>

fun search_from :: "regex \<Rightarrow> char option \<Rightarrow> string \<Rightarrow> mstate option" where
  "search_from r p [] =
     (case rmatch r \<lparr>m_prev = p, m_rest = [], m_caps = []\<rparr> of [] \<Rightarrow> None | m # _ \<Rightarrow> Some m)"
| "search_from r p (c # cs) =
     (case rmatch r \<lparr>m_prev = p, m_rest = c # cs, m_caps = []\<rparr> of
        [] \<Rightarrow> search_from r (Some c) cs
      | m # _ \<Rightarrow> Some m)"

definition re_search :: "regex \<Rightarrow> string \<Rightarrow> (nat \<Rightarrow> string option) option" where
  "re_search r text = map_option (\<lambda>m. map_of (m_caps m)) (search_from r None text)"

text \<open>
  With \<^verbatim>\<open>re.IGNORECASE\<close>: every pattern of the source is written in lower case and
  every group it reads is a digit string or is lowered before use, so matching the
  lowered text gives the same outcome.
\<close>

definition re_search_ignorecase :: "regex \<Rightarrow> string \<Rightarrow> (nat \<Rightarrow> string option) option" where
  "re_search_ignorecase r text = re_search r (lower text)"

fun seqs :: "regex list \<Rightarrow> regex" where
  "seqs [] = Lit []"
| "seqs [r] = r"
| "seqs (r # rs) = Seq r (seqs rs)"

fun alts :: "string list \<Rightarrow> regex" where
  "alts [] = Lit []"
| "alts [w] = Lit w"
| "alts (w # ws) = Alt (Lit w) (alts ws)"

text \<open>\<^verbatim>\<open>\d{1,2}(?::\d{2})?\<close> and \<^verbatim>\<open>am|pm\<close>.\<close>

definition time_token :: regex where
  "time_token = seqs [Digit, Opt Digit, Opt (seqs [Lit '':'', Digit, Digit])]"

definition am_pm :: regex where
  "am_pm = alts [''am'', ''pm'']"

text \<open>
  The three \<^verbatim>\<open>range_patterns\<close> of \<^verbatim>\<open>_parse_time_range\<close>, each with its number of
  groups. The bracketed class of the third pattern holds the hyphen (and, in the source
  file, three characters beyond ASCII).
\<close>

definition range_patterns :: "(regex \<times> nat) list" where
  "range_patterns =
     [(seqs [Lit ''between'', Space, Star Space, Group 1 time_token, Star Space,
             Opt (Group 2 am_pm), Star Space, Lit ''and'', Star Space, Group 3 time_token,
             Star Space, Opt (Group 4 am_pm)], 4),
      (seqs [Lit ''from'', Space, Star Space, Group 1 time_token, Star Space,
             Opt (Group 2 am_pm), Star Space, Lit ''to'', Star Space, Group 3 time_token,
             Star Space, Opt (Group 4 am_pm)], 4),
      (seqs [Group 1 time_token, Star Space, OneOf ''-'', Star Space, Group 2 time_token,
             Star Space, Group 3 am_pm], 3)]"

text \<open>\<^verbatim>\<open>\d{1,2}:\d{2}|\d{1,2}\s*(am|pm)\<close> of \<^verbatim>\<open>_parse_single_datetime\<close>.\<close>

definition time_regex :: regex where
  "time_regex =
     Alt (seqs [Digit, Opt Digit, Lit '':'', Digit, Digit])
         (seqs [Digit, Opt Digit, Star Space, Group 1 am_pm])"

text \<open>The patterns of \<^verbatim>\<open>extract_duration\<close>; each hour and minute pattern starts with
  \<^verbatim>\<open>(\d+)\s*-?\s*\<close>.\<close>

definition number_then :: "regex list \<Rightarrow> regex" where
  "number_then unit =
     seqs ([Group 1 (Seq Digit (Star Digit)), Star Space, Opt (Lit ''-''), Star Space] @ unit)"

definition an_hour_pattern :: regex where
  "an_hour_pattern =
     seqs [WordB, Group 1 (alts [''a'', ''an'', ''one'']), Space, Star Space, Lit ''hour'', WordB]"

definition hour_patterns :: "regex list" where
  "hour_patterns =
     [number_then [Lit ''h'', WordB],
      number_then [Lit ''hr''],
      number_then [Lit ''hour'', Opt (Lit ''s'')]]"

definition minute_patterns :: "regex list" where
  "minute_patterns =
     [number_then [Lit ''m'', WordB],
      number_then [Lit ''min'', Opt (Group 2 (Lit ''ute'')), Opt (Lit ''s'')]]"

definition group_int :: "(nat \<Rightarrow> string option) \<Rightarrow> nat \<Rightarrow> error + int" where
  "group_int m n = (case m n of None \<Rightarrow> Inl TypeError | Some g \<Rightarrow> py_int g)"

fun first_match :: "regex list \<Rightarrow> string \<Rightarrow> (nat \<Rightarrow> string option) option" where
  "first_match [] text = None"
| "first_match (r # rs) text =
     (case re_search_ignorecase r text of None \<Rightarrow> first_match rs text | Some m \<Rightarrow> Some m)"

text \<open>\<^verbatim>\<open>extract_duration\<close>: the duration in minutes, or \<open>None\<close>.\<close>

definition extract_duration :: "string \<Rightarrow> error + int option" where
  "extract_duration text =
     (if re_search_ignorecase an_hour_pattern text \<noteq> None then Inr (Some 60)
      else case first_match hour_patterns text of
        Some m \<Rightarrow> (case group_int m 1 of Inl e \<Rightarrow> Inl e | Inr n \<Rightarrow> Inr (Some (n * 60)))
      | None \<Rightarrow>
         (case first_match minute_patterns text of
            Some m \<Rightarrow> (case group_int m 1 of Inl e \<Rightarrow> Inl e | Inr n \<Rightarrow> Inr (Some n))
          | None \<Rightarrow> Inr None))"


subsection \<open>Datetimes\<close>

text \<open>
  A \<^verbatim>\<open>datetime\<close> is its wall-clock reading, counted in microseconds from the start of
  day 0 of the proleptic Gregorian calendar (so that \<^verbatim>\<open>toordinal()\<close> is the quotient
  by the length of a day), together with its \<^verbatim>\<open>tzinfo\<close>, which is absent for a naive
  value. A \<^verbatim>\<open>tzinfo\<close> as pytz attaches it has a zone name and a fixed offset from UTC.
  Arithmetic and \<^verbatim>\<open>replace\<close> act on the wall-clock reading and keep the
  \<^verbatim>\<open>tzinfo\<close>; comparison of aware values compares the UTC instants (\<open>utc\<close>);
  \<^verbatim>\<open>datetime + timedelta\<close> raises OverflowError outside the years 1 to 9999, and
  \<^verbatim>\<open>replace\<close> raises ValueError for a field out of range.
\<close>

record tz =
  zone :: string
  utcoffset :: int

record datetime =
  wall :: int
  tzinfo :: "tz option"

definition day_us :: int where
  "day_us = 86400000000"

definition days :: "int \<Rightarrow> int" where
  "days n = n * day_us"

definition ordinal :: "datetime \<Rightarrow> int" where
  "ordinal dt = wall dt div day_us"

definition weekday :: "datetime \<Rightarrow> int" where
  "weekday dt = (ordinal dt + 6) mod 7"

definition hour_of :: "datetime \<Rightarrow> int" where
  "hour_of dt = (wall dt mod day_us) div 3600000000"

definition minute_of :: "datetime \<Rightarrow> int" where
  "minute_of dt = (wall dt mod 3600000000) div 60000000"

definition min_wall :: int where
  "min_wall = day_us"

definition max_wall :: int where
  "max_wall = 3652060 * day_us - 1"

definition representable :: "int \<Rightarrow> bool" where
  "representable w \<longleftrightarrow> min_wall \<le> w \<and> w \<le> max_wall"

definition timedelta_add :: "datetime \<Rightarrow> int \<Rightarrow> error + datetime" where
  "timedelta_add dt delta =
     (if representable (wall dt + delta) then Inr (dt\<lparr>wall := wall dt + delta\<rparr>)
      else Inl OverflowError)"

definition replace_time :: "datetime \<Rightarrow> int \<Rightarrow> int \<Rightarrow> int \<Rightarrow> int \<Rightarrow> error + datetime" where
  "replace_time dt h m s us =
     (if 0 \<le> h \<and> h < 24 \<and> 0 \<le> m \<and> m < 60 \<and> 0 \<le> s \<and> s < 60 \<and> 0 \<le> us \<and> us < 1000000
      then Inr (dt\<lparr>wall := ordinal dt * day_us + ((h * 60 + m) * 60 + s) * 1000000 + us\<rparr>)
      else Inl ValueError)"

definition utc :: "datetime \<Rightarrow> int" where
  "utc dt = wall dt - (case tzinfo dt of None \<Rightarrow> 0 | Some z \<Rightarrow> utcoffset z)"

fun bind_err :: "'e + 'a \<Rightarrow> ('a \<Rightarrow> 'e + 'b) \<Rightarrow> 'e + 'b" where
  "bind_err (Inl e) f = Inl e"
| "bind_err (Inr x) f = f x"

subsection \<open>The environment\<close>

text \<open>
  What the code obtains from outside the repository is an input of the model:
  \<^item> the wall clock: \<open>clock env s\<close> is the UTC instant that the call of
    \<^verbatim>\<open>datetime.now\<close> at site \<open>s\<close> returns (each site runs at most once in a turn);
  \<^item> the time-zone database of pytz: whether a zone name is known, and the offset that
    \<^verbatim>\<open>datetime.now(tz)\<close> and \<^verbatim>\<open>tz.localize\<close> attach;
  \<^item> the fuzzy parser \<^verbatim>\<open>dateutil.parser.parse(text, fuzzy=True, default=d)\<close>, which
    returns a datetime, raises a \<^verbatim>\<open>ValueError\<close> or \<^verbatim>\<open>TypeError\<close>, or fails otherwise;
  \<^item> the language model: its reply to a prompt, or \<open>None\<close> when the call raises;
  \<^item> the wording of the replies (f-strings and \<^verbatim>\<open>strftime\<close>), and \<^verbatim>\<open>str(e)\<close>;
  \<^item> the calendar provider: whether the service is authenticated, and the busy periods
    that the free/busy query returns for a window, or the error it raises.
\<close>

datatype site = RangeNow | DatePartNow | AvailabilityNow

datatype parse_outcome = Parsed datetime | ParserError | OtherFailure

datatype llm_request =
    IntentPrompt string
  | AvailabilityPrompt string "period list"
  | GeneralPrompt string

datatype template =
    Issue string
  | NoSlotsForThatTime
  | CalendarLooksBusy
  | SlotsListing "period list"
  | AskForTime
  | TimeHasPassed
  | BusyAlternatives "period list"
  | NoSlotsInRange
  | ChooseAmong "period list" int
  | ConfirmBooking period int
  | ModifyHelp
  | GeneralHelp

record env =
  clock :: "site \<Rightarrow> int"
  tz_known :: "string \<Rightarrow> bool"
  offset_at_utc :: "string \<Rightarrow> int \<Rightarrow> int"
  offset_at_local :: "string \<Rightarrow> int \<Rightarrow> int"
  fuzzy_parse :: "string \<Rightarrow> datetime \<Rightarrow> parse_outcome"
  llm_invoke :: "llm_request \<Rightarrow> string option"
  wording :: "template \<Rightarrow> string"
  error_text :: "error \<Rightarrow> string"
  is_authenticated :: bool
  freebusy :: "instant \<times> instant \<Rightarrow> error + period list"

definition datetime_now :: "env \<Rightarrow> site \<Rightarrow> string \<Rightarrow> datetime" where
  "datetime_now env st z =
     \<lparr>wall = clock env st + offset_at_utc env z (clock env st),
      tzinfo = Some \<lparr>zone = z, utcoffset = offset_at_utc env z (clock env st)\<rparr>\<rparr>"

text \<open>\<^verbatim>\<open>user_tz.localize(dt)\<close>, applied by the source when \<^verbatim>\<open>dt.tzinfo is None\<close>.\<close>

definition localize :: "env \<Rightarrow> string \<Rightarrow> datetime \<Rightarrow> datetime" where
  "localize env z dt = dt\<lparr>tzinfo := Some \<lparr>zone = z, utcoffset = offset_at_local env z (wall dt)\<rparr>\<rparr>"

definition ensure_aware :: "env \<Rightarrow> string \<Rightarrow> datetime \<Rightarrow> datetime" where
  "ensure_aware env z dt = (if tzinfo dt = None then localize env z dt else dt)"

subsection \<open>DateTimeParser\<close>

text \<open>The tables of \<^verbatim>\<open>__init__\<close>, in the order in which the dictionaries are
  written (the order in which Python iterates them).\<close>

definition relative_patterns :: "(string \<times> int) list" where
  "relative_patterns =
     [(''today'', 0), (''tomorrow'', 1), (''day after tomorrow'', 2), (''next week'', 7),
      (''this week'', 0), (''next month'', 30), (''this month'', 0)]"

definition weekday_patterns :: "(string \<times> int) list" where
  "weekday_patterns =
     [(''monday'', 0), (''mon'', 0),
      (''tuesday'', 1), (''tue'', 1), (''tues'', 1),
      (''wednesday'', 2), (''wed'', 2),
      (''thursday'', 3), (''thu'', 3), (''thur'', 3), (''thurs'', 3),
      (''friday'', 4), (''fri'', 4),
      (''saturday'', 5), (''sat'', 5),
      (''sunday'', 6), (''sun'', 6)]"

definition time_patterns :: "(string \<times> int \<times> int) list" where
  "time_patterns =
     [(''morning'', 5, 12), (''afternoon'', 12, 18), (''evening'', 18, 21),
      (''night'', 21, 24), (''midnight'', 0, 0), (''midday'', 12, 12), (''noon'', 12, 12),
      (''dawn'', 5, 6), (''dusk'', 18, 19), (''twilight'', 19, 20)]"

text \<open>\<^verbatim>\<open>for phrase, v in table.items(): if phrase in text: ...\<close>: the first entry
  whose phrase occurs in the text.\<close>

definition first_phrase :: "(string \<times> 'a) list \<Rightarrow> string \<Rightarrow> (string \<times> 'a) option" where
  "first_phrase table text = find (\<lambda>entry. occurs_in (fst entry) text) table"

text \<open>
  The dictionary that the parser returns: \<^verbatim>\<open>start\<close>, \<^verbatim>\<open>end\<close>,
  \<^verbatim>\<open>is_range\<close>, \<^verbatim>\<open>is_full_day\<close> (an absent key reads as false),
  \<^verbatim>\<open>duration_minutes\<close> (absent in a range result) and \<^verbatim>\<open>text\<close>.
\<close>

record spec =
  sp_start :: datetime
  sp_end :: datetime
  is_range :: bool
  is_full_day :: bool
  duration_minutes :: "int option"
  sp_text :: string

text \<open>\<^verbatim>\<open>_parse_date_part\<close>.\<close>

definition parse_date_part :: "env \<Rightarrow> string \<Rightarrow> string \<Rightarrow> error + datetime" where
  "parse_date_part env text user_timezone =
     (if \<not> tz_known env user_timezone then Inl UnknownTimeZoneError
      else
        let now = datetime_now env DatePartNow user_timezone in
        case first_phrase relative_patterns text of
          Some (phrase, n) \<Rightarrow>
            bind_err (timedelta_add now (days n)) (\<lambda>target_date. replace_time target_date 0 0 0 0)
        | None \<Rightarrow>
           (case first_phrase weekday_patterns text of
              Some (wd, day_num) \<Rightarrow>
                let current_weekday = weekday now;
                    days_ahead = day_num - current_weekday;
                    days_ahead = (if days_ahead \<le> 0 then days_ahead + 7 else days_ahead);
                    days_ahead = (if occurs_in ''next'' text then days_ahead + 7 else days_ahead)
                in bind_err (timedelta_add now (days days_ahead))
                     (\<lambda>target_date. replace_time target_date 0 0 0 0)
            | None \<Rightarrow>
               (case fuzzy_parse env text now of
                  Parsed parsed_date \<Rightarrow> Inr (ensure_aware env user_timezone parsed_date)
                | ParserError \<Rightarrow> Inr now
                | OtherFailure \<Rightarrow> Inl LibraryError)))"

text \<open>
  \<^verbatim>\<open>_parse_time_string\<close>: the hour and minute of the time text, then the AM/PM
  marker applied to the hour; any exception gives \<open>None\<close>.
\<close>

definition split_time :: "string \<Rightarrow> (int \<times> int) option" where
  "split_time time_str =
     (if CHR '':'' \<in> set time_str
      then (case (py_int (takeWhile (\<lambda>c. c \<noteq> CHR '':'') time_str),
                  py_int (tl (dropWhile (\<lambda>c. c \<noteq> CHR '':'') time_str))) of
              (Inr hour, Inr minute) \<Rightarrow> Some (hour, minute)
            | _ \<Rightarrow> None)
      else (case py_int time_str of Inr hour \<Rightarrow> Some (hour, 0) | Inl e \<Rightarrow> None))"

definition apply_period :: "string option \<Rightarrow> int \<Rightarrow> int" where
  "apply_period period hour =
     (if map_option lower period = Some ''pm'' \<and> hour \<noteq> 12 then hour + 12
      else if map_option lower period = Some ''am'' \<and> hour = 12 then 0
      else hour)"

definition parse_time_string :: "string option \<Rightarrow> string option \<Rightarrow> (int \<times> int) option" where
  "parse_time_string time_str period =
     (case time_str of
        None \<Rightarrow> None
      | Some ts \<Rightarrow>
         (case split_time ts of
            None \<Rightarrow> None
          | Some (hour, minute) \<Rightarrow> Some (apply_period period hour, minute)))"

text \<open>Python's truth value of an optional text: absent and empty are false.\<close>

definition truthy :: "string option \<Rightarrow> bool" where
  "truthy s \<longleftrightarrow> s \<noteq> None \<and> s \<noteq> Some []"

text \<open>
  The body of the loop of \<^verbatim>\<open>_parse_time_range\<close> up to the two parsed times: the
  groups of a match are unpacked by their number, the start marker is taken from the end
  marker when it is missing (\<^verbatim>\<open>if not start_period and end_period\<close>), and both
  times are parsed.
\<close>

definition standardize ::
  "string option list \<Rightarrow> (string option \<times> string option \<times> string option \<times> string option) option" where
  "standardize groups =
     (case groups of
        [a, b, c, d] \<Rightarrow> Some (a, b, c, d)
      | [a, b, c] \<Rightarrow> Some (a, None, b, c)
      | _ \<Rightarrow> None)"

definition range_times ::
  "string option \<times> string option \<times> string option \<times> string option
     \<Rightarrow> (int \<times> int) option \<times> (int \<times> int) option" where
  "range_times g =
     (case g of (start_time_str, start_period, end_time_str, end_period) \<Rightarrow>
        let start_period = (if \<not> truthy start_period \<and> truthy end_period then end_period
                            else start_period)
        in (parse_time_string start_time_str start_period,
            parse_time_string end_time_str end_period))"

text \<open>The loop over the patterns: the first pattern that matches and yields two times
  decides; what follows in the loop body returns or raises.\<close>

fun match_time_range :: "(regex \<times> nat) list \<Rightarrow> string \<Rightarrow> ((int \<times> int) \<times> (int \<times> int)) option" where
  "match_time_range [] text = None"
| "match_time_range ((pattern, n) # ps) text =
     (case re_search_ignorecase pattern text of
        None \<Rightarrow> match_time_range ps text
      | Some m \<Rightarrow>
         (case standardize (map m [1 ..< Suc n]) of
            None \<Rightarrow> match_time_range ps text
          | Some g \<Rightarrow>
             (case range_times g of
                (Some start_time, Some end_time) \<Rightarrow> Some (start_time, end_time)
              | _ \<Rightarrow> match_time_range ps text)))"

text \<open>\<^verbatim>\<open>_get_date_range_from_text\<close>.\<close>

definition get_date_range_from_text ::
  "env \<Rightarrow> string \<Rightarrow> datetime \<Rightarrow> error + datetime \<times> datetime" where
  "get_date_range_from_text env text0 now =
     (let text = lower text0 in
      if occurs_in ''this week'' text then
        bind_err (timedelta_add now (- days (weekday now))) (\<lambda>start_of_week.
        bind_err (timedelta_add start_of_week (days 6)) (\<lambda>end_of_week.
        Inr (start_of_week, end_of_week)))
      else if occurs_in ''next week'' text then
        bind_err (timedelta_add now (days (7 - weekday now))) (\<lambda>start_of_next_week.
        bind_err (timedelta_add start_of_next_week (days 6)) (\<lambda>end_of_next_week.
        Inr (start_of_next_week, end_of_next_week)))
      else
        (case tzinfo now of
           None \<Rightarrow> Inl AttributeError
         | Some z \<Rightarrow>
            bind_err (parse_date_part env text (zone z)) (\<lambda>date_part. Inr (date_part, date_part))))"

text \<open>\<^verbatim>\<open>_parse_time_range\<close>.\<close>

definition parse_time_range :: "env \<Rightarrow> string \<Rightarrow> string \<Rightarrow> error + spec option" where
  "parse_time_range env text user_timezone =
     (case match_time_range range_patterns text of
        None \<Rightarrow> Inr None
      | Some (start_time, end_time) \<Rightarrow>
          if \<not> tz_known env user_timezone then Inl UnknownTimeZoneError
          else
            let now = datetime_now env RangeNow user_timezone in
            bind_err (get_date_range_from_text env text now) (\<lambda>(start_date_part, end_date_part).
            bind_err (replace_time start_date_part (fst start_time) (snd start_time) 0 0)
              (\<lambda>start_datetime.
            bind_err (replace_time end_date_part (fst end_time) (snd end_time) 0 0)
              (\<lambda>end_datetime.
            Inr (Some \<lparr>sp_start = ensure_aware env user_timezone start_datetime,
                       sp_end = ensure_aware env user_timezone end_datetime,
                       is_range = True, is_full_day = False, duration_minutes = None,
                       sp_text = text\<rparr>)))))"

definition availability_words :: "string list" where
  "availability_words = [''availability'', ''available'', ''free'', ''openings'', ''slots'']"

definition exact_phrases :: "string list" where
  "exact_phrases = [''midnight'', ''midday'', ''noon'']"

text \<open>The result for a single instant: \<^verbatim>\<open>end = start + timedelta(minutes=duration)\<close>.\<close>

definition single_result :: "datetime \<Rightarrow> int \<Rightarrow> string \<Rightarrow> error + spec option" where
  "single_result start_dt duration text =
     bind_err (timedelta_add start_dt (minutes duration)) (\<lambda>end_dt.
       Inr (Some \<lparr>sp_start = start_dt, sp_end = end_dt, is_range = False, is_full_day = False,
                  duration_minutes = Some duration, sp_text = text\<rparr>))"

text \<open>One \<^verbatim>\<open>try\<close> block around the fuzzy parser in \<^verbatim>\<open>_parse_single_datetime\<close>: any
  exception is swallowed.\<close>

definition fuzzy_single :: "env \<Rightarrow> string \<Rightarrow> string \<Rightarrow> datetime \<Rightarrow> int \<Rightarrow> spec option" where
  "fuzzy_single env text user_timezone date_part duration =
     (case fuzzy_parse env text date_part of
        Parsed parsed_dt \<Rightarrow>
          (case single_result (ensure_aware env user_timezone parsed_dt) duration text of
             Inl e \<Rightarrow> None
           | Inr r \<Rightarrow> r)
      | _ \<Rightarrow> None)"

text \<open>\<^verbatim>\<open>_parse_single_datetime\<close>.\<close>

definition parse_single_datetime ::
  "env \<Rightarrow> string \<Rightarrow> string \<Rightarrow> int \<Rightarrow> error + spec option" where
  "parse_single_datetime env text user_timezone duration =
     (let has_specific_time = (re_search_ignorecase time_regex text \<noteq> None);
          has_time_period = (first_phrase time_patterns text \<noteq> None)
      in
      bind_err (parse_date_part env text user_timezone) (\<lambda>date_part.
        if \<not> has_specific_time \<and> \<not> has_time_period
           \<and> list_ex (\<lambda>word. occurs_in word text) availability_words
        then
          bind_err (replace_time date_part 0 0 0 0) (\<lambda>start_of_day.
          bind_err (replace_time date_part 23 59 59 999999) (\<lambda>end_of_day.
          Inr (Some \<lparr>sp_start = start_of_day, sp_end = end_of_day, is_range = True,
                     is_full_day = True, duration_minutes = None, sp_text = text\<rparr>)))
        else
          (case first_phrase time_patterns text of
             Some (phrase, start_hour, end_hour) \<Rightarrow>
               if phrase \<in> set exact_phrases then
                 bind_err (replace_time date_part start_hour 0 0 0) (\<lambda>exact_datetime.
                   single_result exact_datetime duration text)
               else
                 bind_err (replace_time date_part start_hour 0 0 0) (\<lambda>start_of_period.
                 bind_err (replace_time date_part end_hour 0 0 0) (\<lambda>end_of_period.
                 Inr (Some \<lparr>sp_start = start_of_period, sp_end = end_of_period,
                            is_range = True, is_full_day = False, duration_minutes = None,
                            sp_text = text\<rparr>)))
           | None \<Rightarrow>
               (case (if has_specific_time
                      then fuzzy_single env text user_timezone date_part duration
                      else None) of
                  Some r \<Rightarrow> Inr (Some r)
                | None \<Rightarrow> Inr (fuzzy_single env text user_timezone date_part duration)))))"

text \<open>\<^verbatim>\<open>DateTimeParser.parse\<close>: every exception is caught and gives \<open>None\<close>.\<close>

definition parse :: "env \<Rightarrow> string \<Rightarrow> string \<Rightarrow> spec option" where
  "parse env text0 user_timezone =
     (let text = strip (lower text0) in
      case extract_duration text of
        Inl e \<Rightarrow> None
      | Inr extracted \<Rightarrow>
          let duration = (case extracted of None \<Rightarrow> 30 | Some d \<Rightarrow> if d = 0 then 30 else d) in
          case parse_time_range env text user_timezone of
            Inl e \<Rightarrow> None
          | Inr (Some range_result) \<Rightarrow> Some range_result
          | Inr None \<Rightarrow>
             (case parse_single_datetime env text user_timezone duration of
                Inl e \<Rightarrow> None
              | Inr single \<Rightarrow> single))"

subsection \<open>Properties of datetimes and results\<close>

definition aware :: "datetime \<Rightarrow> bool" where
  "aware dt \<longleftrightarrow> tzinfo dt \<noteq> None"

text \<open>A result with aware bounds, its start not after its end, and a duration, when
  present, equal to \<open>d\<close>.\<close>

definition well_formed :: "int \<Rightarrow> spec \<Rightarrow> bool" where
  "well_formed d sp \<longleftrightarrow>
     aware (sp_start sp) \<and> aware (sp_end sp)
     \<and> utc (sp_start sp) \<le> utc (sp_end sp)
     \<and> (duration_minutes sp = None \<or> duration_minutes sp = Some d)"

section \<open>The calendar service and the conversation orchestrator\<close>

subsection \<open>CalendarService (calendar_service.py)\<close>

text \<open>
  The three operations of the service that the agent calls, on UTC instants (the
  source converts every argument with \<^verbatim>\<open>astimezone(pytz.utc)\<close>, and the slots it
  returns are the same instants in the caller's zone). A call returns a value, raises,
  or (\<open>None\<close>) does not return.

  \<^verbatim>\<open>find_free_slots\<close> raises when the service is not authenticated or the query
  fails. \<^verbatim>\<open>get_availability\<close> runs the same computation but returns the empty list
  when the query fails with an \<^verbatim>\<open>HttpError\<close>. \<^verbatim>\<open>check_availability\<close> is the
  half-open overlap test against every busy period, and false on any exception.
\<close>

definition find_free_slots :: "env \<Rightarrow> instant \<times> instant \<Rightarrow> int \<Rightarrow> (error + period list) option" where
  "find_free_slots env date_range d =
     (if \<not> is_authenticated env then Some (Inl ValueError)
      else case freebusy env date_range of
        Inl e \<Rightarrow> Some (Inl e)
      | Inr busy_periods \<Rightarrow> map_option Inr (free_slots busy_periods date_range d))"

definition get_availability :: "env \<Rightarrow> instant \<times> instant \<Rightarrow> int \<Rightarrow> (error + period list) option" where
  "get_availability env date_range d =
     (if \<not> is_authenticated env then Some (Inl ValueError)
      else case freebusy env date_range of
        Inl e \<Rightarrow> (if e = HttpError then Some (Inr []) else Some (Inl e))
      | Inr busy_periods \<Rightarrow> map_option Inr (free_slots busy_periods date_range d))"

definition check_availability :: "env \<Rightarrow> instant \<Rightarrow> instant \<Rightarrow> bool" where
  "check_availability env start_utc end_utc =
     (if \<not> is_authenticated env then False
      else case freebusy env (start_utc, end_utc) of
        Inl e \<Rightarrow> False
      | Inr busy_times \<Rightarrow>
          \<not> list_ex (\<lambda>busy_period. start_utc < pend busy_period \<and> end_utc > pstart busy_period)
              busy_times)"

subsection \<open>The state of a turn\<close>

datatype intent = BookAppointment | CheckAvailability | ModifyAppointment | GeneralQuery

datatype message = HumanMessage string | AIMessage string

fun content :: "message \<Rightarrow> string" where
  "content (HumanMessage c) = c"
| "content (AIMessage c) = c"

text \<open>
  The context dictionary with the keys that the agent writes: \<^verbatim>\<open>error\<close>,
  \<^verbatim>\<open>last_discussed_datetime\<close>, \<^verbatim>\<open>requested_slot_past\<close>,
  \<^verbatim>\<open>requested_slot_busy\<close> (these two are only ever set to true, and read by their
  truth value) and \<^verbatim>\<open>response\<close>.
\<close>

record ctx =
  ctx_error :: "string option"
  last_discussed_datetime :: "spec option"
  requested_slot_past :: bool
  requested_slot_busy :: bool
  ctx_response :: "string option"

definition empty_ctx :: ctx where
  "empty_ctx = \<lparr>ctx_error = None, last_discussed_datetime = None, requested_slot_past = False,
                 requested_slot_busy = False, ctx_response = None\<rparr>"

record confirmation =
  start_time_utc :: instant
  end_time_utc :: instant
  title :: string
  confirmation_timezone :: string

text \<open>\<^verbatim>\<open>ConversationState\<close>. The fields \<^verbatim>\<open>context\<close> and \<^verbatim>\<open>duration_minutes\<close> of the state are
  \<open>state_context\<close> and \<open>state_duration_minutes\<close> here; slots are periods of UTC instants.\<close>

record conversation_state =
  messages :: "message list"
  state_context :: ctx
  intent :: "intent option"
  extracted_datetime :: "spec option"
  state_duration_minutes :: int
  needs_confirmation :: bool
  confirmation_data :: "confirmation option"
  available_slots :: "period list option"
  user_timezone :: string
  session_id :: string

text \<open>Python's truth value of \<^verbatim>\<open>state.available_slots\<close>: \<^verbatim>\<open>None\<close> and the empty
  list are false.\<close>

definition slots_of :: "conversation_state \<Rightarrow> period list" where
  "slots_of st = (case available_slots st of None \<Rightarrow> [] | Some slots \<Rightarrow> slots)"

definition error_set :: "conversation_state \<Rightarrow> bool" where
  "error_set st \<longleftrightarrow> truthy (ctx_error (state_context st))"

subsection \<open>Intent\<close>

text \<open>The mapping of the language model's reply to an intent, in \<^verbatim>\<open>_parse_intent\<close>.\<close>

definition classify_reply :: "string \<Rightarrow> intent" where
  "classify_reply reply =
     (let intent = lower (strip reply) in
      if occurs_in ''book_appointment'' intent then BookAppointment
      else if occurs_in ''check_availability'' intent then CheckAvailability
      else if occurs_in ''modify_appointment'' intent then ModifyAppointment
      else GeneralQuery)"

text \<open>The rule-based fallback of \<^verbatim>\<open>_parse_intent\<close>, with its three lists of patterns.\<close>

definition booking_verbs :: "string list" where
  "booking_verbs = [''book'', ''schedule'', ''set up'', ''arrange'', ''plan'', ''create'', ''add'']"

definition booking_patterns :: "regex list" where
  "booking_patterns =
     [alts booking_verbs,
      alts [''meeting'', ''appointment'', ''call'', ''event''],
      alts [''available'', ''free'', ''open''],
      alts [''tomorrow'', ''today'', ''next week'', ''this week'', ''monday'', ''tuesday'',
            ''wednesday'', ''thursday'', ''friday'', ''saturday'', ''sunday'']]"

definition availability_patterns :: "regex list" where
  "availability_patterns =
     [alts [''available'', ''free'', ''open''],
      Alt (seqs [Lit ''what'', Star AnyChar, Lit ''time''])
        (Alt (seqs [Lit ''when'', Star AnyChar, Lit ''free''])
             (seqs [Lit ''any'', Star AnyChar, Lit ''slot''])),
      Alt (seqs [Lit ''check'', Star AnyChar, Lit ''calendar''])
          (seqs [Lit ''see'', Star AnyChar, Lit ''schedule''])]"

definition modification_patterns :: "regex list" where
  "modification_patterns =
     [alts [''cancel'', ''delete'', ''remove'', ''reschedule'', ''move'', ''change'', ''update'']]"

definition any_match :: "regex list \<Rightarrow> string \<Rightarrow> bool" where
  "any_match patterns message = list_ex (\<lambda>pattern. re_search pattern message \<noteq> None) patterns"

definition rule_based_intent :: "string \<Rightarrow> intent" where
  "rule_based_intent message =
     (if any_match booking_patterns message then
        (if occurs_in ''available'' message \<or> occurs_in ''free'' message then CheckAvailability
         else BookAppointment)
      else if any_match availability_patterns message then CheckAvailability
      else if any_match modification_patterns message then ModifyAppointment
      else GeneralQuery)"

text \<open>
  \<^verbatim>\<open>_parse_intent\<close>. With no message the read of \<^verbatim>\<open>state.messages[-1]\<close> raises and
  the outer handler sets \<^verbatim>\<open>general_query\<close>. The prompt is a fixed text around the
  lowered message.
\<close>

definition parse_intent :: "env \<Rightarrow> conversation_state \<Rightarrow> conversation_state" where
  "parse_intent env st =
     (case messages st of
        [] \<Rightarrow> st\<lparr>intent := Some GeneralQuery\<rparr>
      | m # ms \<Rightarrow>
          let message = lower (content (last (messages st))) in
          st\<lparr>intent := Some (case llm_invoke env (IntentPrompt message) of
                               Some reply \<Rightarrow> classify_reply reply
                             | None \<Rightarrow> rule_based_intent message)\<rparr>)"

subsection \<open>Date and time of the message\<close>

text \<open>
  \<^verbatim>\<open>_parse_datetime\<close>. The parsed dictionary is stored in the state and, the same
  object, in the context under \<^verbatim>\<open>last_discussed_datetime\<close>, so the later writes to
  \<^verbatim>\<open>state.extracted_datetime\<close> show in both places. An exception ends the node with
  the writes made so far.
\<close>

definition store_datetime :: "spec \<Rightarrow> conversation_state \<Rightarrow> conversation_state" where
  "store_datetime parsed st =
     st\<lparr>extracted_datetime := Some parsed,
        state_context := (state_context st)\<lparr>last_discussed_datetime := Some parsed\<rparr>\<rparr>"

definition parse_datetime :: "env \<Rightarrow> conversation_state \<Rightarrow> conversation_state" where
  "parse_datetime env st =
     (case messages st of
        [] \<Rightarrow> st
      | m # ms \<Rightarrow>
          let message = content (last (messages st)) in
          case parse env message (user_timezone st) of
            None \<Rightarrow> st
          | Some parsed_datetime \<Rightarrow>
              let st1 = store_datetime parsed_datetime st in
              (case extract_duration message of
                 Inl e \<Rightarrow> st1
               | Inr None \<Rightarrow> st1
               | Inr (Some duration) \<Rightarrow>
                   if duration = 0 then st1
                   else
                     let with_duration = parsed_datetime\<lparr>duration_minutes := Some duration\<rparr>;
                         st2 = store_datetime with_duration
                                 (st1\<lparr>state_duration_minutes := duration\<rparr>)
                     in (case timedelta_add (sp_start with_duration) (minutes duration) of
                           Inl e \<Rightarrow> st2
                         | Inr new_end \<Rightarrow>
                             store_datetime (with_duration\<lparr>sp_end := new_end\<rparr>) st2)))"

subsection \<open>The branch after the datetime node\<close>

datatype next_step = ToCheckAvailability | ToGenerateResponse

definition decide_next_step :: "conversation_state \<Rightarrow> next_step" where
  "decide_next_step st =
     (if error_set st then ToGenerateResponse
      else if intent st = Some BookAppointment then
        (if extracted_datetime st \<noteq> None \<and> slots_of st \<noteq> [] then ToGenerateResponse
         else if extracted_datetime st \<noteq> None \<and> slots_of st = [] then ToCheckAvailability
         else ToGenerateResponse)
      else if intent st = Some CheckAvailability then ToCheckAvailability
      else ToGenerateResponse)"

subsection \<open>Availability lookup\<close>

text \<open>\<^verbatim>\<open>[slot for slot in slots if slot["start"] > now]\<close>.\<close>

definition after_now :: "instant \<Rightarrow> period list \<Rightarrow> period list" where
  "after_now now slots = filter (\<lambda>slot. pstart slot > now) slots"

text \<open>
  The loop over the days of a multi-day time range: for each day from the start date to
  the end date, the window from the start's clock time to the end's clock time is searched
  when it starts after now.
\<close>

function day_loop ::
  "env \<Rightarrow> datetime \<Rightarrow> datetime \<Rightarrow> datetime \<Rightarrow> instant \<Rightarrow> int \<Rightarrow> period list
     \<Rightarrow> (error + period list) option" where
  "day_loop env current_day start_time end_time now d all_slots =
     (if ordinal current_day \<le> ordinal end_time then
        (case replace_time current_day (hour_of start_time) (minute_of start_time) 0 0 of
           Inl e \<Rightarrow> Some (Inl e)
         | Inr day_start_time \<Rightarrow>
            (case replace_time current_day (hour_of end_time) (minute_of end_time) 0 0 of
               Inl e \<Rightarrow> Some (Inl e)
             | Inr day_end_time \<Rightarrow>
                (case (if utc day_start_time > now
                       then find_free_slots env (utc day_start_time, utc day_end_time) d
                       else Some (Inr [])) of
                   None \<Rightarrow> None
                 | Some (Inl e) \<Rightarrow> Some (Inl e)
                 | Some (Inr daily_slots) \<Rightarrow>
                    (case timedelta_add current_day (days 1) of
                       Inl e \<Rightarrow> Some (Inl e)
                     | Inr next_day \<Rightarrow>
                         day_loop env next_day start_time end_time now d
                           (all_slots @ daily_slots)))))
      else Some (Inr all_slots))"
  by pat_completeness auto
termination
proof (relation "measure (\<lambda>(env, current_day, start_time, end_time, now, d, all_slots).
                   nat (ordinal end_time + 1 - ordinal current_day))")
  show "wf (measure (\<lambda>(env, current_day, start_time, end_time, now, d, all_slots).
                   nat (ordinal end_time + 1 - ordinal current_day)))"
    by simp
next
  fix env :: env and current_day start_time end_time :: datetime and now d :: int
    and all_slots :: "period list" and x2 x2a x2b x2c next_day
  assume le: "ordinal current_day \<le> ordinal end_time"
    and nx: "timedelta_add current_day (days 1) = Inr next_day"
  from nx have "wall next_day = wall current_day + days 1"
    by (auto simp: timedelta_add_def split: if_splits)
  then have "ordinal next_day = ordinal current_day + 1"
    by (simp add: ordinal_def days_def day_us_def)
  with le show "((env, next_day, start_time, end_time, now, d, all_slots @ x2c),
                 env, current_day, start_time, end_time, now, d, all_slots)
        \<in> measure (\<lambda>(env, current_day, start_time, end_time, now, d, all_slots).
                   nat (ordinal end_time + 1 - ordinal current_day))"
    by simp
qed

declare day_loop.simps [simp del]

text \<open>
  The outcome of the body of \<^verbatim>\<open>_check_availability\<close>: the state on return, or the
  exception together with the state as written so far.
\<close>

type_synonym body_outcome = "(error \<times> conversation_state + conversation_state) option"

definition raised_in :: "conversation_state \<Rightarrow> (error + period list) option
    \<Rightarrow> (period list \<Rightarrow> conversation_state) \<Rightarrow> body_outcome" where
  "raised_in st r k =
     (case r of
        None \<Rightarrow> None
      | Some (Inl e) \<Rightarrow> Some (Inl (e, st))
      | Some (Inr slots) \<Rightarrow> Some (Inr (k slots)))"

text \<open>The three scenarios for a known datetime specification. Its bounds are aware
  datetimes (as the resolver produces them), so a comparison with now is a comparison of
  UTC instants.\<close>

definition scenarios :: "env \<Rightarrow> conversation_state \<Rightarrow> spec \<Rightarrow> instant \<Rightarrow> body_outcome" where
  "scenarios env st ed now =
     (let start_time = sp_start ed; end_time = sp_end ed; d = state_duration_minutes st in
      if is_range ed \<and> \<not> is_full_day ed \<and> ordinal end_time > ordinal start_time then
        raised_in st (day_loop env start_time start_time end_time now d [])
          (\<lambda>all_slots. st\<lparr>available_slots := Some (after_now now all_slots)\<rparr>)
      else if is_range ed \<or> is_full_day ed then
        raised_in st (find_free_slots env (utc start_time, utc end_time) d)
          (\<lambda>slots. st\<lparr>available_slots := Some (after_now now slots)\<rparr>)
      else
        (case timedelta_add start_time (minutes d) of
           Inl e \<Rightarrow> Some (Inl (e, st))
         | Inr end_time \<Rightarrow>
             if utc start_time \<le> now then
               Some (Inr (st\<lparr>state_context := (state_context st)\<lparr>requested_slot_past := True\<rparr>,
                            available_slots := Some []\<rparr>))
             else if check_availability env (utc start_time) (utc end_time) then
               Some (Inr (st\<lparr>available_slots :=
                              Some [\<lparr>pstart = utc start_time, pend = utc end_time\<rparr>]\<rparr>))
             else
               let st1 = st\<lparr>state_context := (state_context st)\<lparr>requested_slot_busy := True\<rparr>\<rparr> in
               (case replace_time start_time 0 0 0 0 of
                  Inl e \<Rightarrow> Some (Inl (e, st1))
                | Inr date_start \<Rightarrow>
                   (case timedelta_add date_start (days 1) of
                      Inl e \<Rightarrow> Some (Inl (e, st1))
                    | Inr date_end \<Rightarrow>
                        raised_in st1 (find_free_slots env (utc date_start, utc date_end) d)
                          (\<lambda>alternative_slots.
                             st1\<lparr>available_slots :=
                                   Some (take 5 (after_now now alternative_slots))\<rparr>)))))"

definition availability_body :: "env \<Rightarrow> conversation_state \<Rightarrow> body_outcome" where
  "availability_body env st =
     (if \<not> tz_known env (user_timezone st) then Some (Inl (UnknownTimeZoneError, st))
      else
        let now_dt = datetime_now env AvailabilityNow (user_timezone st); now = utc now_dt in
        case extracted_datetime st of
          Some ed \<Rightarrow> scenarios env st ed now
        | None \<Rightarrow>
           (case last_discussed_datetime (state_context st) of
              Some last_discussed \<Rightarrow>
                scenarios env (st\<lparr>extracted_datetime := Some last_discussed\<rparr>) last_discussed now
            | None \<Rightarrow>
               (case timedelta_add now_dt (days 7) of
                  Inl e \<Rightarrow> Some (Inl (e, st))
                | Inr end_date \<Rightarrow>
                    raised_in st
                      (get_availability env (utc now_dt, utc end_date) (state_duration_minutes st))
                      (\<lambda>slots. st\<lparr>available_slots := Some (after_now now slots)\<rparr>))))"

text \<open>\<^verbatim>\<open>_check_availability\<close>: an exception of the body is written to the context.\<close>

definition agent_check_availability :: "env \<Rightarrow> conversation_state \<Rightarrow> conversation_state option" where
  "agent_check_availability env st =
     (if \<not> is_authenticated env then
        Some (st\<lparr>state_context := (state_context st)
                   \<lparr>ctx_error := Some ''Not authenticated with Google Calendar''\<rparr>\<rparr>)
      else
        map_option
          (\<lambda>r. case r of
                  Inr st' \<Rightarrow> st'
                | Inl (e, st') \<Rightarrow>
                    st'\<lparr>state_context := (state_context st')\<lparr>ctx_error := Some (error_text env e)\<rparr>\<rparr>)
          (availability_body env st))"

subsection \<open>Response\<close>

text \<open>
  The four composers return a text and never raise (each has its own handler); the
  booking composer also sets the confirmation. The wording of a reply is left to the
  environment. \<^verbatim>\<open>_generate_response\<close> appends the text to the messages as an
  \<^verbatim>\<open>AIMessage\<close>.
\<close>

definition last_message_or :: "string \<Rightarrow> conversation_state \<Rightarrow> string" where
  "last_message_or dflt st = (case messages st of [] \<Rightarrow> dflt | m # ms \<Rightarrow> content (last (messages st)))"

definition issue_text :: "env \<Rightarrow> conversation_state \<Rightarrow> string" where
  "issue_text env st =
     wording env (Issue (case ctx_error (state_context st) of None \<Rightarrow> [] | Some e \<Rightarrow> e))"

definition generate_availability_response :: "env \<Rightarrow> conversation_state \<Rightarrow> string" where
  "generate_availability_response env st =
     (if error_set st then issue_text env st
      else if slots_of st = [] then
        (if extracted_datetime st \<noteq> None then wording env NoSlotsForThatTime
         else wording env CalendarLooksBusy)
      else
        (case llm_invoke env
                (AvailabilityPrompt (last_message_or ''availability check'' st) (slots_of st)) of
           Some reply \<Rightarrow> strip reply
         | None \<Rightarrow> wording env (SlotsListing (slots_of st))))"

definition generate_booking_response :: "env \<Rightarrow> conversation_state \<Rightarrow> string \<times> conversation_state" where
  "generate_booking_response env st =
     (if error_set st then (issue_text env st, st)
      else if extracted_datetime st = None then (wording env AskForTime, st)
      else if requested_slot_past (state_context st) then (wording env TimeHasPassed, st)
      else
        (case slots_of st of
           [] \<Rightarrow>
             if requested_slot_busy (state_context st) then (wording env (BusyAlternatives []), st)
             else (wording env NoSlotsInRange, st)
         | [slot] \<Rightarrow>
             (wording env (ConfirmBooking slot (state_duration_minutes st)),
              st\<lparr>needs_confirmation := True,
                 confirmation_data :=
                   Some \<lparr>start_time_utc = pstart slot, end_time_utc = pend slot,
                         title = ''Meeting'', confirmation_timezone = user_timezone st\<rparr>\<rparr>)
         | slot # others \<Rightarrow>
             (wording env (ChooseAmong (slots_of st) (state_duration_minutes st)), st)))"

definition generate_general_response :: "env \<Rightarrow> conversation_state \<Rightarrow> string" where
  "generate_general_response env st =
     (case llm_invoke env (GeneralPrompt (last_message_or [] st)) of
        Some reply \<Rightarrow> strip reply
      | None \<Rightarrow> wording env GeneralHelp)"

definition generate_response :: "env \<Rightarrow> conversation_state \<Rightarrow> conversation_state" where
  "generate_response env st =
     (let (response, st') =
        (case intent st of
           Some CheckAvailability \<Rightarrow> (generate_availability_response env st, st)
         | Some BookAppointment \<Rightarrow> generate_booking_response env st
         | Some ModifyAppointment \<Rightarrow> (wording env ModifyHelp, st)
         | _ \<Rightarrow> (generate_general_response env st, st))
      in st'\<lparr>messages := messages st' @ [AIMessage response]\<rparr>)"

subsection \<open>The graph and the turn\<close>

text \<open>
  The compiled graph: \<^verbatim>\<open>parse_intent\<close>, then \<^verbatim>\<open>parse_datetime\<close>, then the branch
  decided by \<^verbatim>\<open>_decide_next_step\<close>, then (after \<^verbatim>\<open>check_availability\<close> if chosen)
  \<^verbatim>\<open>generate_response\<close>, which ends the run.
\<close>

definition state_at_decision :: "env \<Rightarrow> conversation_state \<Rightarrow> conversation_state" where
  "state_at_decision env st = parse_datetime env (parse_intent env st)"

definition run_graph :: "env \<Rightarrow> conversation_state \<Rightarrow> conversation_state option" where
  "run_graph env st =
     (let s = state_at_decision env st in
      case decide_next_step s of
        ToCheckAvailability \<Rightarrow> map_option (generate_response env) (agent_check_availability env s)
      | ToGenerateResponse \<Rightarrow> Some (generate_response env s))"

text \<open>
  An entry of the conversation history, with the two keys of the turn input contract;
  a key that is missing is \<open>None\<close>.
\<close>

record item =
  item_role :: "string option"
  item_content :: "string option"

text \<open>The first loop of \<^verbatim>\<open>process_message\<close>: \<^verbatim>\<open>item["content"]\<close> raises KeyError
  when the key is missing.\<close>

fun to_messages :: "item list \<Rightarrow> error + message list" where
  "to_messages [] = Inr []"
| "to_messages (entry # entries) =
     (case item_content entry of
        None \<Rightarrow> Inl KeyError
      | Some c \<Rightarrow>
          bind_err (to_messages entries)
            (\<lambda>ms. Inr ((if item_role entry = Some ''user'' then HumanMessage c else AIMessage c)
                        # ms)))"

fun to_item :: "message \<Rightarrow> item" where
  "to_item (HumanMessage c) = \<lparr>item_role = Some ''user'', item_content = Some c\<rparr>"
| "to_item (AIMessage c) = \<lparr>item_role = Some ''assistant'', item_content = Some c\<rparr>"

text \<open>The state that \<^verbatim>\<open>process_message\<close> hands to the graph: the defaults of
  \<^verbatim>\<open>ConversationState\<close>, the messages, and the context kept for the session, if any.\<close>

definition initial_state ::
  "(string \<rightharpoonup> ctx) \<Rightarrow> string \<Rightarrow> string \<Rightarrow> message list \<Rightarrow> conversation_state" where
  "initial_state session_contexts sid zone_name msgs =
     \<lparr>messages = msgs,
      context = (case session_contexts sid of None \<Rightarrow> empty_ctx | Some c \<Rightarrow> c),
      intent = None, extracted_datetime = None, state_duration_minutes = 30,
      needs_confirmation = False, confirmation_data = None, available_slots = None,
      user_timezone = zone_name, session_id = sid\<rparr>"

record turn_result =
  conversation_history :: "item list"
  result_needs_confirmation :: bool
  result_confirmation_data :: "confirmation option"
  result_available_slots :: "period list option"
  result_context :: ctx

definition apology :: string where
  "apology = ''I apologize, but I encountered an error. Please try again.''"

text \<open>
  \<^verbatim>\<open>process_message\<close>, with the contexts kept per session as a second result. An
  exception in the body gives the input history with the apology appended.
\<close>

definition process_message ::
  "env \<Rightarrow> (string \<rightharpoonup> ctx) \<Rightarrow> string \<Rightarrow> string \<Rightarrow> item list
     \<Rightarrow> (turn_result \<times> (string \<rightharpoonup> ctx)) option" where
  "process_message env session_contexts sid zone_name history =
     (case to_messages history of
        Inl e \<Rightarrow>
          Some (\<lparr>conversation_history =
                   history @ [\<lparr>item_role = Some ''assistant'', item_content = Some apology\<rparr>],
                 result_needs_confirmation = False, result_confirmation_data = None,
                 result_available_slots = None,
                 result_context = empty_ctx\<lparr>ctx_error := Some (error_text env e)\<rparr>\<rparr>,
                session_contexts)
      | Inr msgs \<Rightarrow>
         (case run_graph env (initial_state session_contexts sid zone_name msgs) of
            None \<Rightarrow> None
          | Some final_state \<Rightarrow>
              Some (\<lparr>conversation_history = map to_item (messages final_state),
                     result_needs_confirmation = needs_confirmation final_state,
                     result_confirmation_data = confirmation_data final_state,
                     result_available_slots = available_slots final_state,
                     result_context = state_context final_state\<rparr>,
                    session_contexts(sid \<mapsto> state_context final_state))))"

text \<open>The state at the moment the branch decision runs, in the turn that
  \<^verbatim>\<open>process_message\<close> starts for the given messages.\<close>

definition decision_state ::
  "env \<Rightarrow> (string \<rightharpoonup> ctx) \<Rightarrow> string \<Rightarrow> string \<Rightarrow> message list \<Rightarrow> conversation_state" where
  "decision_state env session_contexts sid zone_name msgs =
     state_at_decision env (initial_state session_contexts sid zone_name msgs)"


subsection \<open>A concrete environment\<close>

text \<open>
  An environment for concrete runs: the clock reads \<open>t\<close> at every site, UTC is the only
  known zone, the fuzzy parser finds nothing, the language model is unreachable, the
  replies are worded as the empty text, and the calendar is authenticated and reports the
  busy periods \<open>busy\<close> for every window.
\<close>

definition demo_env :: "int \<Rightarrow> period list \<Rightarrow> env" where
  "demo_env t busy =
     \<lparr>clock = (\<lambda>s. t), tz_known = (\<lambda>z. z = ''UTC''), offset_at_utc = (\<lambda>z u. 0),
      offset_at_local = (\<lambda>z w. 0), fuzzy_parse = (\<lambda>text d. ParserError),
      llm_invoke = (\<lambda>r. None), wording = (\<lambda>t. []), error_text = (\<lambda>e. ''error''),
      is_authenticated = True, freebusy = (\<lambda>w. Inr busy)\<rparr>"

section \<open>Properties of the free-slot computation\<close>

















text \<open>
  The other two conditions are needed as well. A busy period that starts before the
  window is sorted in front of the window's start marker, and the gap after the marker
  begins at the window start, inside the period. An empty period that starts together
  with a non-empty one may be sorted behind it, and the gap after it begins inside the
  non-empty one.
\<close>

lemma free_slots_busy_before_window:
  "free_slots [\<lparr>pstart = minutes (- 10), pend = minutes 5\<rparr>] (0, minutes 60) 30
     = Some [\<lparr>pstart = 0, pend = minutes 30\<rparr>, \<lparr>pstart = minutes 30, pend = minutes 60\<rparr>]
   \<and> overlaps \<lparr>pstart = 0, pend = minutes 30\<rparr> \<lparr>pstart = minutes (- 10), pend = minutes 5\<rparr>"
  by (simp add: free_slots_def slots_in_gap.simps minutes_def overlaps_def)

lemma free_slots_empty_busy_period:
  "free_slots [\<lparr>pstart = minutes 5, pend = minutes 40\<rparr>,
               \<lparr>pstart = minutes 5, pend = minutes 5\<rparr>] (0, minutes 60) 20
     = Some [\<lparr>pstart = minutes 5, pend = minutes 25\<rparr>, \<lparr>pstart = minutes 25, pend = minutes 45\<rparr>]
   \<and> overlaps \<lparr>pstart = minutes 5, pend = minutes 25\<rparr> \<lparr>pstart = minutes 5, pend = minutes 40\<rparr>"
  by (simp add: free_slots_def slots_in_gap.simps minutes_def overlaps_def)




section \<open>Properties of the temporal resolver\<close>

subsection \<open>Auxiliary facts\<close>

lemma bind_err_Inr:
  "bind_err m f = Inr y \<Longrightarrow> \<exists>x. m = Inr x \<and> f x = Inr y"
  by (cases m) simp_all

lemma digit_value_nonneg: "0 \<le> digit_value c"
proof (cases "map_of (zip ''0123456789'' [0, 1, 2, 3, 4, 5, 6, 7, 8, 9 :: int]) c")
  case None
  then show ?thesis by (simp add: digit_value_def)
next
  case (Some v)
  then have "v \<in> set [0, 1, 2, 3, 4, 5, 6, 7, 8, 9 :: int]"
    by (meson map_of_SomeD set_zip_rightD)
  with Some show ?thesis by (auto simp: digit_value_def)
qed

lemma foldl_digits_nonneg:
  "0 \<le> acc \<Longrightarrow> 0 \<le> foldl (\<lambda>acc c. 10 * acc + digit_value c) acc s"
  by (induction s arbitrary: acc) (simp_all add: digit_value_nonneg)

lemma py_int_nonneg: "py_int s = Inr n \<Longrightarrow> 0 \<le> n"
  using foldl_digits_nonneg[of 0 s] by (auto simp: py_int_def split: if_splits)

lemma group_int_nonneg: "group_int m k = Inr n \<Longrightarrow> 0 \<le> n"
  by (auto simp: group_int_def py_int_nonneg split: option.splits)

lemma extract_duration_nonneg: "extract_duration text = Inr (Some d) \<Longrightarrow> 0 \<le> d"
  by (auto simp: extract_duration_def split: if_splits option.splits sum.splits
      dest: group_int_nonneg)

lemma timedelta_add_Inr:
  "timedelta_add dt x = Inr d \<Longrightarrow> tzinfo d = tzinfo dt \<and> wall d = wall dt + x"
  by (auto simp: timedelta_add_def split: if_splits)

lemma aware_cong: "tzinfo a = tzinfo b \<Longrightarrow> aware a = aware b"
  by (simp add: aware_def)

lemma replace_time_Inr:
  "replace_time dt h m s us = Inr d \<Longrightarrow>
     tzinfo d = tzinfo dt \<and> wall d = ordinal dt * day_us + ((h * 60 + m) * 60 + s) * 1000000 + us"
  by (auto simp: replace_time_def split: if_splits)

lemma datetime_now_aware: "aware (datetime_now env st z)"
  by (simp add: datetime_now_def aware_def)

lemma ensure_aware_aware: "aware (ensure_aware env z d)"
  by (simp add: ensure_aware_def localize_def aware_def)

lemma parse_date_part_aware:
  assumes "parse_date_part env text z = Inr d"
  shows "aware d"
proof -
  let ?now = "datetime_now env DatePartNow z"
  have shifted: "aware d"
    if "bind_err (timedelta_add ?now x) (\<lambda>t. replace_time t 0 0 0 0) = Inr d" for x
  proof -
    from bind_err_Inr[OF that] obtain t where "timedelta_add ?now x = Inr t"
      "replace_time t 0 0 0 0 = Inr d" by blast
    with timedelta_add_Inr[of ?now x t] replace_time_Inr[of t 0 0 0 0 d]
      datetime_now_aware[of env DatePartNow z]
    show ?thesis by (simp add: aware_def)
  qed
  from assms show ?thesis
    by (auto simp: parse_date_part_def Let_def datetime_now_aware ensure_aware_aware
        split: if_splits option.splits parse_outcome.splits dest: shifted)
qed

lemma get_date_range_aware:
  assumes "get_date_range_from_text env text now = Inr (a, b)" "aware now"
  shows "aware a \<and> aware b"
proof -
  have week: "aware a \<and> aware b"
    if "bind_err (timedelta_add now x) (\<lambda>s. bind_err (timedelta_add s y) (\<lambda>e. Inr (s, e))) = Inr (a, b)"
    for x y
  proof -
    from bind_err_Inr[OF that] obtain s where s: "timedelta_add now x = Inr s"
      "bind_err (timedelta_add s y) (\<lambda>e. Inr (s, e)) = Inr (a, b)" by blast
    from bind_err_Inr[OF s(2)] obtain e where e: "timedelta_add s y = Inr e" "s = a" "e = b"
      by auto
    with s(1) timedelta_add_Inr[of now x s] timedelta_add_Inr[of s y e] assms(2)
    show ?thesis by (simp add: aware_def)
  qed
  from assms(1) show ?thesis
    by (auto simp: get_date_range_from_text_def Let_def
        split: if_splits option.splits dest: week bind_err_Inr parse_date_part_aware)
qed

lemma parse_time_range_result:
  assumes "parse_time_range env text z = Inr (Some sp)"
  shows "aware (sp_start sp) \<and> aware (sp_end sp) \<and> duration_minutes sp = None"
  using assms
  by (auto simp: parse_time_range_def Let_def ensure_aware_aware
      split: option.splits prod.splits if_splits dest!: bind_err_Inr)

lemma single_result_Inr:
  assumes "single_result st d text = Inr (Some sp)"
  shows "sp_start sp = st \<and> tzinfo (sp_end sp) = tzinfo st \<and> wall (sp_end sp) = wall st + minutes d
         \<and> duration_minutes sp = Some d"
  using assms
  by (auto simp: single_result_def dest!: bind_err_Inr timedelta_add_Inr)

lemma single_result_well_formed:
  assumes "single_result st d text = Inr (Some sp)" "aware st" "0 < d"
  shows "well_formed d sp"
  using single_result_Inr[OF assms(1)] assms(2,3)
  by (auto simp: well_formed_def utc_def minutes_def aware_def)

lemma fuzzy_single_well_formed:
  assumes "fuzzy_single env text z date_part d = Some sp" "0 < d"
  shows "well_formed d sp"
  using assms
  by (auto simp: fuzzy_single_def split: parse_outcome.splits sum.splits
      intro: single_result_well_formed[OF _ ensure_aware_aware])

lemma time_patterns_ordered:
  "first_phrase time_patterns text = Some (phrase, sh, eh) \<Longrightarrow> sh \<le> eh"
proof -
  assume "first_phrase time_patterns text = Some (phrase, sh, eh)"
  then have "(phrase, sh, eh) \<in> set time_patterns"
    by (auto simp: first_phrase_def find_Some_iff in_set_conv_nth)
  then show ?thesis by (auto simp: time_patterns_def)
qed

lemma same_day_well_formed:
  assumes s: "replace_time dp h1 m1 s1 u1 = Inr a" and e: "replace_time dp h2 m2 s2 u2 = Inr b"
    and aw: "aware dp"
    and le: "((h1 * 60 + m1) * 60 + s1) * 1000000 + u1 \<le> ((h2 * 60 + m2) * 60 + s2) * 1000000 + u2"
  shows "well_formed d \<lparr>sp_start = a, sp_end = b, is_range = r, is_full_day = f,
                         duration_minutes = None, sp_text = t\<rparr>"
  using replace_time_Inr[OF s] replace_time_Inr[OF e] aw le
  by (auto simp: well_formed_def utc_def aware_def)

lemma parse_single_datetime_well_formed:
  assumes res: "parse_single_datetime env text z d = Inr (Some sp)" and d: "0 < d"
  shows "well_formed d sp"
proof -
  from res obtain dp where dp: "parse_date_part env text z = Inr dp"
    by (auto simp: parse_single_datetime_def Let_def dest!: bind_err_Inr)
  note aw = parse_date_part_aware[OF dp]
  show ?thesis
  proof (cases "re_search_ignorecase time_regex text = None \<and> first_phrase time_patterns text = None
           \<and> list_ex (\<lambda>word. occurs_in word text) availability_words")
    case True
    with res dp obtain a b where "replace_time dp 0 0 0 0 = Inr a"
      "replace_time dp 23 59 59 999999 = Inr b"
      "sp = \<lparr>sp_start = a, sp_end = b, is_range = True, is_full_day = True,
             duration_minutes = None, sp_text = text\<rparr>"
      by (auto simp: parse_single_datetime_def Let_def dest!: bind_err_Inr)
    with same_day_well_formed[OF this(1,2) aw] show ?thesis by simp
  next
    case False
    show ?thesis
    proof (cases "first_phrase time_patterns text")
      case None
      with res dp False have "fuzzy_single env text z dp d = Some sp"
        by (auto simp: parse_single_datetime_def Let_def split: option.splits if_splits)
      from fuzzy_single_well_formed[OF this d] show ?thesis .
    next
      case (Some entry)
      then obtain phrase sh eh where ph: "first_phrase time_patterns text = Some (phrase, sh, eh)"
        by (cases entry) auto
      note ord = time_patterns_ordered[OF ph]
      show ?thesis
      proof (cases "phrase \<in> set exact_phrases")
        case True
        with res dp False ph obtain x where x: "replace_time dp sh 0 0 0 = Inr x"
          "single_result x d text = Inr (Some sp)"
          by (auto simp: parse_single_datetime_def Let_def dest!: bind_err_Inr)
        from replace_time_Inr[OF x(1)] aw have "aware x" by (simp add: aware_def)
        from single_result_well_formed[OF x(2) this d] show ?thesis .
      next
        case nex: False
        with res dp False ph obtain a b where ab: "replace_time dp sh 0 0 0 = Inr a"
          "replace_time dp eh 0 0 0 = Inr b"
          "sp = \<lparr>sp_start = a, sp_end = b, is_range = True, is_full_day = False,
                 duration_minutes = None, sp_text = text\<rparr>"
          by (auto simp: parse_single_datetime_def Let_def dest!: bind_err_Inr)
        from ord have "((sh * 60 + 0) * 60 + 0) * 1000000 + 0 \<le> ((eh * 60 + 0) * 60 + 0) * 1000000 + 0"
          by simp
        from same_day_well_formed[OF ab(1,2) aw this] ab(3) show ?thesis by simp
      qed
    qed
  qed
qed






subsection \<open>Dependence on the wall clock\<close>




subsection \<open>AM/PM markers of a time range\<close>



text \<open>On the texts themselves: an end marker reaches the start bound.\<close>

lemma match_time_range_end_marker:
  "match_time_range range_patterns ''between 2 and 4 pm'' = Some ((14, 0), (16, 0))
   \<and> match_time_range range_patterns ''3-5 pm this week'' = Some ((15, 0), (17, 0))"
  by code_simp


subsection \<open>Weekday names\<close>



subsection \<open>Invariants of a resolved specification\<close>

text \<open>
  Claim C4, as the code has it. Every result of \<^verbatim>\<open>parse\<close> has aware start and end
  (never naive datetimes) and, when it has a duration, a positive one. Its start is not
  after its end when no explicit time range was matched in the text (a full day, a named
  period, a single instant). The bounds of an explicit time range are taken as written,
  and nothing orders them.
\<close>

theorem parse_spec_invariants:
  assumes "parse env text z = Some sp"
  shows "aware (sp_start sp) \<and> aware (sp_end sp)
         \<and> (\<forall>d. duration_minutes sp = Some d \<longrightarrow> 0 < d)
         \<and> (match_time_range range_patterns (strip (lower text)) = None
              \<longrightarrow> utc (sp_start sp) \<le> utc (sp_end sp))"
proof -
  let ?text = "strip (lower text)"
  from assms obtain extracted where ex: "extract_duration ?text = Inr extracted"
    by (auto simp: parse_def Let_def split: sum.splits)
  define d where "d = (case extracted of None \<Rightarrow> 30 | Some d \<Rightarrow> if d = 0 then 30 else d)"
  have d: "0 < d"
    using extract_duration_nonneg[of ?text] ex by (auto simp: d_def split: option.splits)
  show ?thesis
  proof (cases "parse_time_range env ?text z")
    case (Inl e)
    with assms ex show ?thesis by (simp add: parse_def Let_def)
  next
    case (Inr r)
    show ?thesis
    proof (cases r)
      case (Some rr)
      with Inr assms ex have "rr = sp" by (simp add: parse_def Let_def)
      with Some Inr have tr: "parse_time_range env ?text z = Inr (Some sp)" by simp
      then have "match_time_range range_patterns ?text \<noteq> None"
        by (auto simp: parse_time_range_def split: option.splits)
      with parse_time_range_result[OF tr] show ?thesis by auto
    next
      case None
      with Inr assms ex have "parse_single_datetime env ?text z d = Inr (Some sp)"
        by (auto simp: parse_def Let_def d_def split: sum.splits)
      from parse_single_datetime_well_formed[OF this d] d show ?thesis
        by (auto simp: well_formed_def)
    qed
  qed
qed

theorem parse_spec_invariants_witness:
  "parse (demo_env (days 738886 + minutes 540) []) ''friday at noon for 45 min'' ''UTC''
     = Some \<lparr>sp_start = \<lparr>wall = days 738890 + minutes 720,
                           tzinfo = Some \<lparr>zone = ''UTC'', utcoffset = 0\<rparr>\<rparr>,
              sp_end = \<lparr>wall = days 738890 + minutes 765,
                         tzinfo = Some \<lparr>zone = ''UTC'', utcoffset = 0\<rparr>\<rparr>,
              is_range = False, is_full_day = False, duration_minutes = Some 45,
              sp_text = ''friday at noon for 45 min''\<rparr>
   \<and> aware \<lparr>wall = days 738890 + minutes 720, tzinfo = Some \<lparr>zone = ''UTC'', utcoffset = 0\<rparr>\<rparr>
   \<and> aware \<lparr>wall = days 738890 + minutes 765, tzinfo = Some \<lparr>zone = ''UTC'', utcoffset = 0\<rparr>\<rparr>
   \<and> (0::int) < 45
   \<and> utc \<lparr>wall = days 738890 + minutes 720, tzinfo = Some \<lparr>zone = ''UTC'', utcoffset = 0\<rparr>\<rparr>
       \<le> utc \<lparr>wall = days 738890 + minutes 765, tzinfo = Some \<lparr>zone = ''UTC'', utcoffset = 0\<rparr>\<rparr>"
proof -
  let ?sp = "\<lparr>sp_start = \<lparr>wall = days 738890 + minutes 720,
                            tzinfo = Some \<lparr>zone = ''UTC'', utcoffset = 0\<rparr>\<rparr>,
               sp_end = \<lparr>wall = days 738890 + minutes 765,
                          tzinfo = Some \<lparr>zone = ''UTC'', utcoffset = 0\<rparr>\<rparr>,
               is_range = False, is_full_day = False, duration_minutes = Some 45,
               sp_text = ''friday at noon for 45 min''\<rparr>"
  have h: "parse (demo_env (days 738886 + minutes 540) []) ''friday at noon for 45 min'' ''UTC''
             = Some ?sp"
    by code_simp
  have m: "match_time_range range_patterns (strip (lower ''friday at noon for 45 min'')) = None"
    by code_simp
  from parse_spec_invariants[OF h] m h show ?thesis by simp
qed

text \<open>
  Claim C4 as stated fails for an explicit time range. \<^verbatim>\<open>today from 5 pm to 3 pm\<close>,
  resolved at 09:00 on 1 January 2024, gives the start 17:00 and the end 15:00 of that
  day: the end is before the start.
\<close>

theorem parse_range_end_before_start_counterexample:
"parse (demo_env (days 738886 + minutes 540) []) ''today from 5 pm to 3 pm'' ''UTC''
  = Some \<lparr>sp_start = \<lparr>wall = days 738886 + minutes (17 * 60), tzinfo = Some \<lparr>zone = ''UTC'', utcoffset = 0\<rparr>\<rparr>,
     sp_end = \<lparr>wall = days 738886 + minutes (15 * 60), tzinfo = Some \<lparr>zone = ''UTC'', utcoffset = 0\<rparr>\<rparr>,
     is_range = True, is_full_day = False, duration_minutes = None,
     sp_text = ''today from 5 pm to 3 pm''\<rparr>
  \<and> utc \<lparr>wall = days 738886 + minutes (15 * 60), tzinfo = Some \<lparr>zone = ''UTC'', utcoffset = 0\<rparr>\<rparr>
     < utc \<lparr>wall = days 738886 + minutes (17 * 60), tzinfo = Some \<lparr>zone = ''UTC'', utcoffset = 0\<rparr>\<rparr>"
  by code_simp

section \<open>Properties of the orchestrator\<close>

subsection \<open>The rule-based intent classifier\<close>

text \<open>A search for an alternation of words succeeds exactly when one of the words
  occurs in the text.\<close>

lemma rmatch_alts_nonempty:
  "ws \<noteq> [] \<Longrightarrow> rmatch (alts ws) s \<noteq> [] \<longleftrightarrow> (\<exists>w\<in>set ws. prefix w (m_rest s))"
  by (induction ws rule: alts.induct) auto

lemma search_from_alts:
  "ws \<noteq> [] \<Longrightarrow> search_from (alts ws) p msg \<noteq> None \<longleftrightarrow> (\<exists>w\<in>set ws. occurs_in w msg)"
proof (induction msg arbitrary: p)
  case Nil
  from rmatch_alts_nonempty[OF Nil, of "\<lparr>m_prev = p, m_rest = [], m_caps = []\<rparr>"]
  show ?case by (auto split: list.splits)
next
  case (Cons c cs)
  from rmatch_alts_nonempty[OF Cons.prems, of "\<lparr>m_prev = p, m_rest = c # cs, m_caps = []\<rparr>"]
    Cons.IH[OF Cons.prems, of "Some c"]
  show ?case by (auto split: list.splits)
qed

lemma re_search_alts:
  "ws \<noteq> [] \<Longrightarrow> re_search (alts ws) msg \<noteq> None \<longleftrightarrow> (\<exists>w\<in>set ws. occurs_in w msg)"
  using search_from_alts[of ws None msg] by (simp add: re_search_def)

text \<open>
  Claim C7, as the code has it. In the rule-based fallback, for every message in which a
  booking verb occurs (book, schedule, set up, arrange, plan, create, add), the intent is
  \<^verbatim>\<open>check_availability\<close> when \<^verbatim>\<open>available\<close> or \<^verbatim>\<open>free\<close> occurs in the
  message, and \<^verbatim>\<open>book_appointment\<close> otherwise: the tie-break tests these two words
  only, not the other availability words (open, what time, any slot).
\<close>

theorem rule_based_intent_with_booking_verb:
  assumes "\<exists>verb\<in>set booking_verbs. occurs_in verb message"
  shows "rule_based_intent message
           = (if occurs_in ''available'' message \<or> occurs_in ''free'' message
              then CheckAvailability else BookAppointment)"
proof -
  have "booking_verbs \<noteq> []" by (simp add: booking_verbs_def)
  from re_search_alts[OF this] assms have "re_search (alts booking_verbs) message \<noteq> None"
    by simp
  then have "any_match booking_patterns message"
    by (simp add: any_match_def booking_patterns_def)
  then show ?thesis by (simp add: rule_based_intent_def)
qed

theorem rule_based_intent_with_booking_verb_witness:
  "occurs_in ''schedule'' ''schedule a call when i am free''
   \<and> rule_based_intent ''schedule a call when i am free'' = CheckAvailability"
proof -
  have v: "\<exists>verb\<in>set booking_verbs. occurs_in verb ''schedule a call when i am free''"
    by (simp add: booking_verbs_def)
  have f: "occurs_in ''free'' ''schedule a call when i am free''" by code_simp
  have s: "occurs_in ''schedule'' ''schedule a call when i am free''" by code_simp
  from rule_based_intent_with_booking_verb[OF v] f s show ?thesis by simp
qed

text \<open>
  Claim C7 as stated fails for the availability words other than \<^verbatim>\<open>available\<close> and
  \<^verbatim>\<open>free\<close>: a message with the booking verb \<^verbatim>\<open>book\<close> and the availability
  words \<^verbatim>\<open>any slot\<close> and \<^verbatim>\<open>open\<close> is classified as \<^verbatim>\<open>book_appointment\<close>.
\<close>

theorem rule_based_intent_open_slot_counterexample:
  "rule_based_intent ''can you book any slot that is open'' = BookAppointment
   \<and> occurs_in ''book'' ''can you book any slot that is open''
   \<and> occurs_in ''any slot'' ''can you book any slot that is open''
   \<and> occurs_in ''open'' ''can you book any slot that is open''"
  by code_simp

subsection \<open>An explicit duration overrides the end of the specification\<close>

text \<open>
  Claim C9. When the resolver returns a specification for the last message and
  \<^verbatim>\<open>extract_duration\<close> finds a duration \<open>d\<close> other than 0 in it (and start plus
  \<open>d\<close> minutes is a representable datetime), \<^verbatim>\<open>_parse_datetime\<close> stores the
  specification with \<^verbatim>\<open>duration_minutes = d\<close> and with its end replaced by start plus
  \<open>d\<close> minutes, whatever \<^verbatim>\<open>is_range\<close> and \<^verbatim>\<open>is_full_day\<close> are; these two flags
  and the start are unchanged. The same value is what the context keeps as the last
  discussed datetime, and the duration of the state becomes \<open>d\<close>.
\<close>

theorem parse_datetime_duration_overrides_end:
  assumes msgs: "messages st \<noteq> []"
    and parsed: "parse env (content (last (messages st))) (user_timezone st) = Some sp"
    and dur: "extract_duration (content (last (messages st))) = Inr (Some d)"
    and nz: "d \<noteq> 0"
    and add: "timedelta_add (sp_start sp) (minutes d) = Inr new_end"
  shows "extracted_datetime (parse_datetime env st)
           = Some (sp\<lparr>duration_minutes := Some d, sp_end := new_end\<rparr>)
         \<and> wall new_end = wall (sp_start sp) + minutes d
         \<and> tzinfo new_end = tzinfo (sp_start sp)
         \<and> last_discussed_datetime (state_context (parse_datetime env st))
             = Some (sp\<lparr>duration_minutes := Some d, sp_end := new_end\<rparr>)
         \<and> state_duration_minutes (parse_datetime env st) = d"
proof -
  from msgs obtain m ms where "messages st = m # ms" by (cases "messages st") auto
  with parsed dur nz add timedelta_add_Inr[OF add] show ?thesis
    by (simp add: parse_datetime_def store_datetime_def Let_def)
qed

text \<open>
  On Wednesday 3 January 2024 the text resolves to the range from Monday 1 January 15:00
  to Sunday 7 January 17:00; with the duration of two hours found in the same message the
  stored specification ends on Monday at 17:00 and is still marked as a range.
\<close>

theorem parse_datetime_duration_overrides_end_witness:
  "extracted_datetime
     (parse_datetime (demo_env (days 738888 + minutes 540) [])
        (initial_state Map.empty ''s'' ''UTC'' [HumanMessage ''3-5 PM this week for 2 hours'']))
     = Some \<lparr>sp_start = \<lparr>wall = days 738886 + minutes (15 * 60),
                           tzinfo = Some \<lparr>zone = ''UTC'', utcoffset = 0\<rparr>\<rparr>,
              sp_end = \<lparr>wall = days 738886 + minutes (17 * 60),
                         tzinfo = Some \<lparr>zone = ''UTC'', utcoffset = 0\<rparr>\<rparr>,
              is_range = True, is_full_day = False, duration_minutes = Some 120,
              sp_text = ''3-5 pm this week for 2 hours''\<rparr>
   \<and> parse (demo_env (days 738888 + minutes 540) []) ''3-5 PM this week for 2 hours'' ''UTC''
     = Some \<lparr>sp_start = \<lparr>wall = days 738886 + minutes (15 * 60),
                           tzinfo = Some \<lparr>zone = ''UTC'', utcoffset = 0\<rparr>\<rparr>,
              sp_end = \<lparr>wall = days 738892 + minutes (17 * 60),
                         tzinfo = Some \<lparr>zone = ''UTC'', utcoffset = 0\<rparr>\<rparr>,
              is_range = True, is_full_day = False, duration_minutes = None,
              sp_text = ''3-5 pm this week for 2 hours''\<rparr>"
proof -
  let ?env = "demo_env (days 738888 + minutes 540) []"
  let ?st = "initial_state Map.empty ''s'' ''UTC'' [HumanMessage ''3-5 PM this week for 2 hours'']"
  let ?sp = "\<lparr>sp_start = \<lparr>wall = days 738886 + minutes (15 * 60),
                           tzinfo = Some \<lparr>zone = ''UTC'', utcoffset = 0\<rparr>\<rparr>,
              sp_end = \<lparr>wall = days 738892 + minutes (17 * 60),
                         tzinfo = Some \<lparr>zone = ''UTC'', utcoffset = 0\<rparr>\<rparr>,
              is_range = True, is_full_day = False, duration_minutes = None,
              sp_text = ''3-5 pm this week for 2 hours''\<rparr>"
  let ?e = "\<lparr>wall = days 738886 + minutes (17 * 60),
             tzinfo = Some \<lparr>zone = ''UTC'', utcoffset = 0\<rparr>\<rparr>"
  have h1: "messages ?st \<noteq> []" by (simp add: initial_state_def)
  have h2: "parse ?env (content (last (messages ?st))) (user_timezone ?st) = Some ?sp"
    by code_simp
  have h3: "extract_duration (content (last (messages ?st))) = Inr (Some 120)"
    by code_simp
  have h4: "(120::int) \<noteq> 0" by simp
  have h5: "timedelta_add (sp_start ?sp) (minutes 120) = Inr ?e"
    by code_simp
  have p: "parse ?env ''3-5 PM this week for 2 hours'' ''UTC'' = Some ?sp"
    by code_simp
  from parse_datetime_duration_overrides_end[OF h1 h2 h3 h4 h5] p show ?thesis by simp
qed

subsection \<open>The branch decision in a run of the graph\<close>

lemma parse_intent_frame:
  "available_slots (parse_intent env st) = available_slots st
   \<and> state_context (parse_intent env st) = state_context st
   \<and> messages (parse_intent env st) = messages st
   \<and> state_duration_minutes (parse_intent env st) = state_duration_minutes st
   \<and> user_timezone (parse_intent env st) = user_timezone st"
  by (simp add: parse_intent_def Let_def split: list.splits)

lemma store_datetime_frame:
  "available_slots (store_datetime sp st) = available_slots st
   \<and> ctx_error (state_context (store_datetime sp st)) = ctx_error (state_context st)
   \<and> messages (store_datetime sp st) = messages st
   \<and> intent (store_datetime sp st) = intent st
   \<and> state_duration_minutes (store_datetime sp st) = state_duration_minutes st"
  by (simp add: store_datetime_def)

lemma parse_datetime_frame:
  "available_slots (parse_datetime env st) = available_slots st
   \<and> ctx_error (state_context (parse_datetime env st)) = ctx_error (state_context st)
   \<and> messages (parse_datetime env st) = messages st
   \<and> intent (parse_datetime env st) = intent st"
  by (simp add: parse_datetime_def Let_def store_datetime_frame
      split: list.splits option.splits sum.splits)

text \<open>
  Claim C10, as the code has it. In every run that \<^verbatim>\<open>process_message\<close> starts,
  \<^verbatim>\<open>available_slots\<close> is still \<^verbatim>\<open>None\<close> when the branch decision runs, so the
  branch for a booking with confirmed slots is never taken. The context carries an error
  at that moment exactly when the context kept for the session carries one. For the
  intent \<^verbatim>\<open>book_appointment\<close> with a specification present, the decision is
  \<^verbatim>\<open>check_availability\<close> when the context carries no error, and
  \<^verbatim>\<open>generate_response\<close> (by the error guard, the first test of the decision) when it does.
\<close>

theorem decision_in_graph_run:
  "available_slots (decision_state env sc sid zn msgs) = None
   \<and> (error_set (decision_state env sc sid zn msgs)
        \<longleftrightarrow> (\<exists>c. sc sid = Some c \<and> truthy (ctx_error c)))
   \<and> (intent (decision_state env sc sid zn msgs) = Some BookAppointment
        \<and> extracted_datetime (decision_state env sc sid zn msgs) \<noteq> None
      \<longrightarrow> decide_next_step (decision_state env sc sid zn msgs)
            = (if error_set (decision_state env sc sid zn msgs) then ToGenerateResponse
               else ToCheckAvailability))"
proof -
  let ?s = "decision_state env sc sid zn msgs"
  have slots: "available_slots ?s = None"
    by (simp add: decision_state_def state_at_decision_def parse_datetime_frame
        parse_intent_frame initial_state_def)
  have "ctx_error (state_context ?s) = ctx_error (state_context (initial_state sc sid zn msgs))"
    by (simp add: decision_state_def state_at_decision_def parse_datetime_frame
        parse_intent_frame)
  then have err: "error_set ?s \<longleftrightarrow> (\<exists>c. sc sid = Some c \<and> truthy (ctx_error c))"
    by (auto simp: error_set_def initial_state_def empty_ctx_def truthy_def
        split: option.splits)
  from slots have "slots_of ?s = []" by (simp add: slots_of_def)
  then have "intent ?s = Some BookAppointment \<and> extracted_datetime ?s \<noteq> None
      \<longrightarrow> decide_next_step ?s = (if error_set ?s then ToGenerateResponse else ToCheckAvailability)"
    by (simp add: decide_next_step_def)
  with slots err show ?thesis by blast
qed

theorem decision_in_graph_run_witness:
  "intent (decision_state (demo_env (days 738886 + minutes 540) []) Map.empty ''s'' ''UTC''
             [HumanMessage ''Book a meeting tomorrow morning'']) = Some BookAppointment
   \<and> extracted_datetime
        (decision_state (demo_env (days 738886 + minutes 540) []) Map.empty ''s'' ''UTC''
           [HumanMessage ''Book a meeting tomorrow morning'']) \<noteq> None
   \<and> decide_next_step
        (decision_state (demo_env (days 738886 + minutes 540) []) Map.empty ''s'' ''UTC''
           [HumanMessage ''Book a meeting tomorrow morning'']) = ToCheckAvailability"
proof -
  let ?s = "decision_state (demo_env (days 738886 + minutes 540) []) Map.empty ''s'' ''UTC''
             [HumanMessage ''Book a meeting tomorrow morning'']"
  have i: "intent ?s = Some BookAppointment" by code_simp
  have e: "extracted_datetime ?s \<noteq> None" by code_simp
  from decision_in_graph_run[of "demo_env (days 738886 + minutes 540) []" Map.empty "''s''"
      "''UTC''" "[HumanMessage ''Book a meeting tomorrow morning'']"] i e
  show ?thesis by simp
qed

text \<open>
  Claim C10 as stated fails when the context kept for the session carries an error: the
  intent is \<^verbatim>\<open>book_appointment\<close>, a specification is present, and the decision is
  \<^verbatim>\<open>generate_response\<close>.
\<close>

theorem decision_with_kept_error_counterexample:
  "intent (decision_state (demo_env (days 738886 + minutes 540) [])
             [''s'' \<mapsto> empty_ctx\<lparr>ctx_error := Some ''Not authenticated with Google Calendar''\<rparr>]
             ''s'' ''UTC'' [HumanMessage ''Book a meeting tomorrow morning'']) = Some BookAppointment
   \<and> extracted_datetime
        (decision_state (demo_env (days 738886 + minutes 540) [])
           [''s'' \<mapsto> empty_ctx\<lparr>ctx_error := Some ''Not authenticated with Google Calendar''\<rparr>]
           ''s'' ''UTC'' [HumanMessage ''Book a meeting tomorrow morning'']) \<noteq> None
   \<and> decide_next_step
        (decision_state (demo_env (days 738886 + minutes 540) [])
           [''s'' \<mapsto> empty_ctx\<lparr>ctx_error := Some ''Not authenticated with Google Calendar''\<rparr>]
           ''s'' ''UTC'' [HumanMessage ''Book a meeting tomorrow morning'']) = ToGenerateResponse"
  by code_simp

text \<open>Such a context is what an earlier turn of the session leaves behind when the
  calendar service is not authenticated.\<close>

lemma error_kept_for_next_turn:
  "map_option (\<lambda>r. map_option ctx_error (snd r ''s''))
     (process_message ((demo_env (days 738886 + minutes 540) [])\<lparr>is_authenticated := False\<rparr>)
        Map.empty ''s'' ''UTC''
        [\<lparr>item_role = Some ''user'', item_content = Some ''Am I free tomorrow afternoon?''\<rparr>])
     = Some (Some (Some ''Not authenticated with Google Calendar''))"
  by code_simp

subsection \<open>A turn returns, with the history kept\<close>




















text \<open>
  An entry with another role, or with none, is read as an assistant message and comes
  back with the role assistant; an entry without content raises in the first loop, and
  the input history comes back with the apology appended.
\<close>

lemma process_message_other_role:
  "map_option (\<lambda>r. conversation_history (fst r))
     (process_message (demo_env (days 738886 + minutes 540) []) Map.empty ''s'' ''UTC''
        [\<lparr>item_role = Some ''system'', item_content = Some ''Hello''\<rparr>])
     = Some [\<lparr>item_role = Some ''assistant'', item_content = Some ''Hello''\<rparr>,
             \<lparr>item_role = Some ''assistant'', item_content = Some []\<rparr>]"
  by code_simp

lemma process_message_missing_content:
  "map_option (\<lambda>r. conversation_history (fst r))
     (process_message (demo_env (days 738886 + minutes 540) []) Map.empty ''s'' ''UTC''
        [\<lparr>item_role = Some ''user'', item_content = None\<rparr>])
     = Some [\<lparr>item_role = Some ''user'', item_content = None\<rparr>,
             \<lparr>item_role = Some ''assistant'', item_content = Some apology\<rparr>]"
  by (simp add: process_message_def)

end
